theory Spec2Isabelle
  imports Complex_Main "HOL-Library.Word"
begin

section \<open>Data model of jetson/nav/rover.cpp\<close>

text \<open>
  A C++ \<open>double\<close> is modelled by a \<open>real\<close>: comparisons, \<open>fabs\<close>, \<open>min\<close> and \<open>max\<close> are
  the ones of the ordered field; rounding, infinities and NaN are outside the model.
  The message structs (Odometry, Target, Obstacle, Waypoint, Course, AutonState) and the
  enumeration NavState are declared in headers that are not part of the sources at hand;
  the records below carry the fields that rover.cpp reads and writes.
\<close>

record Odometry =
  latitude_deg :: int
  latitude_min :: real
  longitude_deg :: int
  longitude_min :: real
  bearing_deg :: real

text \<open>Target: the aggregate \<open>{-1.0, 0, 0}\<close> is distance, bearing, id (comment at line 14).\<close>

record Target =
  t_distance :: real
  t_bearing :: real
  t_id :: int

text \<open>
  Obstacle: the aggregate \<open>{0, 0, -1.0}\<close> has the distance last (comment at line 18);
  rover.cpp reads \<open>bearing\<close> and \<open>distance\<close> only, the first field is kept as it is.
\<close>

record Obstacle =
  o_first :: real
  o_bearing :: real
  o_distance :: real

record Waypoint =
  search :: bool
  gate :: bool
  wp_id :: int
  wp_odom :: Odometry

text \<open>
  Course: \<open>num_waypoints\<close> is compared with an \<open>int\<close> loop index, so it is a signed
  32-bit integer (a word read with \<open>sint\<close>); \<open>waypoints\<close> is the vector that the
  loop of \<open>operator=\<close> indexes.
\<close>

record Course =
  num_waypoints :: "32 word"
  waypoints :: "Waypoint list"

record AutonState =
  is_auton :: bool

text \<open>
  NavState: rover.cpp names three enumerators only; the others of the header are
  \<open>OtherNavState n\<close>.
\<close>

datatype NavState = Off | TurnAroundObs | SearchTurnAroundObs | OtherNavState nat

datatype DriveStatus = Arrived | OnCourse | OffCourse

text \<open>
  Rover::RoverStatus. \<open>mPathTargets\<close> is \<open>unsigned\<close> (a 32-bit word that wraps), the four
  counters are \<open>int\<close>; incrementing an \<open>int\<close> at its maximum is undefined behaviour and a
  fault of the model (\<open>incr\<close> below).
\<close>

record RoverStatus =
  mCurrentState :: NavState
  mAutonState :: AutonState
  mCourse :: Course
  mPath :: "Waypoint list"
  mObstacle :: Obstacle
  mOdometry :: Odometry
  mTargetLeft :: Target
  mTargetRight :: Target
  mCTargetLeft :: Target
  mCTargetRight :: Target
  mPathTargets :: "32 word"
  countLeftMisses :: int
  countRightMisses :: int
  countLeftHits :: int
  countRightHits :: int

text \<open>The configuration document \<open>mRoverConfig\<close>: the keys that rover.cpp reads.\<close>

record RoverConfig =
  waypointDistance :: real
  targetDistance :: real
  drivingBearing :: real
  turningBearing :: real
  minTurningEffort :: real
  noTargetDist :: real
  cacheMissMax :: real
  autonDriveControlChannel :: string

record AutonDriveControl =
  left_percent_velocity :: real
  right_percent_velocity :: real

text \<open>What the code writes to \<open>std::cout\<close> and \<open>std::cerr\<close>, one event per statement.\<close>

datatype Diag =
    Offcourse
  | UpdatingOdom
  | TurnInfo real real real
  | TurnVel real real

text \<open>
  The functions and constants that rover.cpp calls and that live in other files
  (utilities.hpp, the PidLoop class) are parameters of the model:
  \<^item> \<open>mod_util x m\<close> is \<open>mod( x, m )\<close>;
  \<^item> \<open>throughZero d c\<close> is the value that \<open>throughZero( d, c )\<close> leaves in its first
    argument, the destination bearing; its second argument, the rover's heading, is
    taken as read only;
  \<^item> \<open>pid_update p c t\<close> is \<open>mBearingPid.update( c, t )\<close> on a controller in state \<open>p\<close>:
    the effort and the controller's next state;
  \<^item> \<open>EARTH_CIRCUM\<close> and \<open>degreeToRadian\<close> are used for the longitude conversion.
\<close>

record 'p Externals =
  mod_util :: "real \<Rightarrow> int \<Rightarrow> real"
  throughZero :: "real \<Rightarrow> real \<Rightarrow> real"
  pid_update :: "'p \<Rightarrow> real \<Rightarrow> real \<Rightarrow> real \<times> 'p"
  EARTH_CIRCUM :: real
  degreeToRadian :: "int \<Rightarrow> real \<Rightarrow> real"

text \<open>
  Rover: its status, its PID controller, the conversion factor, and the two output
  streams: the messages published on the LCM object (channel and message, oldest
  first) and the diagnostic output.
\<close>

record 'p Rover =
  mRoverStatus :: RoverStatus
  mBearingPid :: 'p
  mLongMeterInMinutes :: real
  published :: "(string \<times> AutonDriveControl) list"
  console :: "Diag list"

section \<open>Operations\<close>

text \<open>Rover::publishAutonDriveCmd (lines 393-401).\<close>

definition publishAutonDriveCmd :: "RoverConfig \<Rightarrow> real \<Rightarrow> real \<Rightarrow> 'p Rover \<Rightarrow> 'p Rover" where
  "publishAutonDriveCmd cfg leftVel rightVel rv =
     (let driveControl = \<lparr>left_percent_velocity = leftVel, right_percent_velocity = rightVel\<rparr>
      in rv\<lparr>published := published rv @ [(autonDriveControlChannel cfg, driveControl)]\<rparr>)"

text \<open>Rover::isTurningAroundObstacle (lines 444-452).\<close>

definition isTurningAroundObstacle :: "NavState \<Rightarrow> bool" where
  "isTurningAroundObstacle currentState =
     (if currentState = TurnAroundObs \<or> currentState = SearchTurnAroundObs then True else False)"

text \<open>
  Rover::drive( distance, bearing, target ) (lines 168-195): the drive status and the
  rover afterwards.
\<close>

definition drive :: "'p Externals \<Rightarrow> RoverConfig \<Rightarrow> real \<Rightarrow> real \<Rightarrow> bool \<Rightarrow> 'p Rover \<Rightarrow> DriveStatus \<times> 'p Rover" where
  "drive ext cfg distance bearing target rv =
     (if (\<not> target \<and> distance < waypointDistance cfg) \<or> (target \<and> distance < targetDistance cfg)
      then (Arrived, rv)
      else
        let cur = bearing_deg (mOdometry (mRoverStatus rv));
            destinationBearing = throughZero ext (mod_util ext bearing 360) cur
        in if \<bar>destinationBearing - cur\<bar> < drivingBearing cfg
           then
             let (turningEffort, pid') = pid_update ext (mBearingPid rv) cur destinationBearing;
                 left_vel = min 1 (max 0 (1 + turningEffort));
                 right_vel = min 1 (max 0 (1 - turningEffort))
             in (OnCourse, publishAutonDriveCmd cfg left_vel right_vel (rv\<lparr>mBearingPid := pid'\<rparr>))
           else (OffCourse, rv\<lparr>console := console rv @ [Offcourse]\<rparr>))"

text \<open>
  Lines 246-250 of Rover::turn: the effort that the wheel command is built from, given
  the navigation state and the effort \<open>turningEffort\<close> that the controller returned.
\<close>

definition turn_effort :: "RoverConfig \<Rightarrow> NavState \<Rightarrow> real \<Rightarrow> real" where
  "turn_effort cfg currentState turningEffort =
     (let minTurningEffort' = minTurningEffort cfg * (if turningEffort < 0 then - 1 else 1)
      in if isTurningAroundObstacle currentState \<and> \<bar>turningEffort\<bar> < minTurningEffort'
         then minTurningEffort' else turningEffort)"

text \<open>Rover::turn( bearing ) (lines 227-257): the return value and the rover afterwards.\<close>

definition turn :: "'p Externals \<Rightarrow> RoverConfig \<Rightarrow> real \<Rightarrow> 'p Rover \<Rightarrow> bool \<times> 'p Rover" where
  "turn ext cfg bearing rv =
     (let cur = bearing_deg (mOdometry (mRoverStatus rv));
          currentState = mCurrentState (mRoverStatus rv);
          bearing' = throughZero ext (mod_util ext bearing 360) cur;
          turningBearingThreshold =
            (if isTurningAroundObstacle currentState then 0 else turningBearing cfg)
      in if \<bar>bearing' - cur\<bar> \<le> turningBearingThreshold
         then (True, rv)
         else
           let (turningEffort, pid') = pid_update ext (mBearingPid rv) cur bearing';
               rv1 = rv\<lparr>mBearingPid := pid',
                        console := console rv @ [TurnInfo cur bearing' turningEffort]\<rparr>;
               turningEffort' = turn_effort cfg currentState turningEffort;
               left_vel = max (min 1 turningEffort') (- 1);
               right_vel = max (min 1 (- turningEffort')) (- 1);
               rv2 = rv1\<lparr>console := console rv1 @ [TurnVel left_vel right_vel]\<rparr>
           in (False, publishAutonDriveCmd cfg left_vel right_vel rv2))"

text \<open>
  Undefined behaviour of the C++ code is a fault of the model: \<open>front()\<close> of an empty
  deque, the increment of an \<open>int\<close> that holds INT_MAX, and \<open>operator[]\<close> of a vector
  past its end.
\<close>

datatype Fault = EmptyPathFront | IntOverflow | WaypointIndex

definition INT_MAX :: int where
  "INT_MAX = 2147483647"

text \<open>The postfix increment of an \<open>int\<close> counter.\<close>

definition incr :: "int \<Rightarrow> Fault + int" where
  "incr c = (if c < INT_MAX then Inr (c + 1) else Inl IntOverflow)"

text \<open>Rover::isEqual, its three overloads (lines 405-440).\<close>

definition isEqualObstacle :: "Obstacle \<Rightarrow> Obstacle \<Rightarrow> bool" where
  "isEqualObstacle obstacle1 obstacle2 =
     (if o_distance obstacle1 = o_distance obstacle2 \<and> o_bearing obstacle1 = o_bearing obstacle2
      then True else False)"

definition isEqualOdometry :: "Odometry \<Rightarrow> Odometry \<Rightarrow> bool" where
  "isEqualOdometry odometry1 odometry2 =
     (if latitude_deg odometry1 = latitude_deg odometry2 \<and>
         latitude_min odometry1 = latitude_min odometry2 \<and>
         longitude_deg odometry1 = longitude_deg odometry2 \<and>
         longitude_min odometry1 = longitude_min odometry2 \<and>
         bearing_deg odometry1 = bearing_deg odometry2
      then True else False)"

definition isEqualTarget :: "Target \<Rightarrow> Target \<Rightarrow> bool" where
  "isEqualTarget target target2 =
     (if t_distance target = t_distance target2 \<and> t_bearing target = t_bearing target2
      then True else False)"

text \<open>The empty target \<open>{-1, 0, 0}\<close> (lines 14-17, 342, 351).\<close>

definition emptyTarget :: Target where
  "emptyTarget = \<lparr>t_distance = - 1, t_bearing = 0, t_id = 0\<rparr>"

text \<open>Lines 113-116 of operator=: the path is popped until it is empty.\<close>

fun clearPath :: "Waypoint list \<Rightarrow> Waypoint list" where
  "clearPath [] = []"
| "clearPath (wp # path) = clearPath path"

text \<open>
  Lines 117-124 of operator=: the loop over \<open>courseIndex\<close>, with the path and the target
  count built so far. The index stays below \<open>num_waypoints\<close>, so its increment does not
  overflow.
\<close>

function rebuildPath :: "Course \<Rightarrow> int \<Rightarrow> Waypoint list \<Rightarrow> 32 word \<Rightarrow> Fault + (Waypoint list \<times> 32 word)" where
  "rebuildPath course courseIndex path pathTargets =
     (if courseIndex < sint (num_waypoints course)
      then
        if 0 \<le> courseIndex \<and> nat courseIndex < length (waypoints course)
        then
          let wp = waypoints course ! nat courseIndex
          in rebuildPath course (courseIndex + 1) (path @ [wp])
               (if search wp \<or> gate wp then pathTargets + 1 else pathTargets)
        else Inl WaypointIndex
      else Inr (path, pathTargets))"
  by pat_completeness auto
termination
  by (relation "measure (\<lambda>(course, courseIndex, path, pathTargets).
        nat (sint (num_waypoints course) - courseIndex))") auto

declare rebuildPath.simps [simp del]

text \<open>
  A course is well formed when \<open>num_waypoints\<close> is the number of elements of
  \<open>waypoints\<close>, as the name of the field says; \<open>operator=\<close> relies on it when it indexes
  the vector up to \<open>num_waypoints\<close>.
\<close>

definition course_wf :: "Course \<Rightarrow> bool" where
  "course_wf course = (sint (num_waypoints course) = int (length (waypoints course)))"

text \<open>
  Rover::RoverStatus::operator= (lines 107-134): \<open>assign this newRoverStatus\<close> is the
  object assigned to, afterwards. mCurrentState, countLeftHits and countRightHits have
  no assignment in the source.
\<close>

definition assign :: "RoverStatus \<Rightarrow> RoverStatus \<Rightarrow> Fault + RoverStatus" where
  "assign this newRoverStatus =
     (let s1 = this\<lparr>mAutonState := mAutonState newRoverStatus,
                    mCourse := mCourse newRoverStatus,
                    mPathTargets := 0\<rparr>;
          s2 = s1\<lparr>mPath := clearPath (mPath s1)\<rparr>
      in case rebuildPath (mCourse s2) 0 (mPath s2) (mPathTargets s2) of
           Inl fault \<Rightarrow> Inl fault
         | Inr (path, pathTargets) \<Rightarrow>
             Inr (s2\<lparr>mPath := path,
                     mPathTargets := pathTargets,
                     mObstacle := mObstacle newRoverStatus,
                     mOdometry := mOdometry newRoverStatus,
                     mTargetLeft := mTargetLeft newRoverStatus,
                     mTargetRight := mTargetRight newRoverStatus,
                     mCTargetLeft := mCTargetLeft newRoverStatus,
                     mCTargetRight := mCTargetRight newRoverStatus,
                     countLeftMisses := countLeftMisses newRoverStatus,
                     countRightMisses := countRightMisses newRoverStatus\<rparr>))"

text \<open>
  Lines 284-287 of updateRover: whether obstacle, odometry or a live target of the
  incoming status differs from the stored one.
\<close>

definition dataChanged :: "RoverStatus \<Rightarrow> RoverStatus \<Rightarrow> bool" where
  "dataChanged st newRoverStatus =
     (\<not> isEqualObstacle (mObstacle st) (mObstacle newRoverStatus) \<or>
      \<not> isEqualOdometry (mOdometry st) (mOdometry newRoverStatus) \<or>
      \<not> isEqualTarget (mTargetLeft st) (mTargetLeft newRoverStatus) \<or>
      \<not> isEqualTarget (mTargetRight st) (mTargetRight newRoverStatus))"

text \<open>Lines 289-293 of updateRover: the four fields copied from the incoming status.\<close>

definition copyLive :: "RoverStatus \<Rightarrow> RoverStatus \<Rightarrow> RoverStatus" where
  "copyLive st newRoverStatus =
     st\<lparr>mObstacle := mObstacle newRoverStatus,
        mOdometry := mOdometry newRoverStatus,
        mTargetLeft := mTargetLeft newRoverStatus,
        mTargetRight := mTargetRight newRoverStatus\<rparr>"

text \<open>
  Lines 295-334 of updateRover: the caching of the left and the right target, on the
  status that holds the new live targets.
\<close>

definition cacheTargets :: "RoverConfig \<Rightarrow> RoverStatus \<Rightarrow> Fault + RoverStatus" where
  "cacheTargets cfg s =
     (if t_distance (mTargetLeft s) \<noteq> noTargetDist cfg
      then
        case mPath s of
          [] \<Rightarrow> Inl EmptyPathFront
        | front # rest \<Rightarrow>
            (case (if t_id (mTargetLeft s) = wp_id front then incr (countLeftHits s) else Inr 0) of
               Inl fault \<Rightarrow> Inl fault
             | Inr hits \<Rightarrow>
                 let s1 = s\<lparr>countLeftHits := hits\<rparr>;
                     s2 = (if countLeftHits s1 \<ge> 3
                           then s1\<lparr>mCTargetLeft := mTargetLeft s1, countLeftMisses := 0\<rparr>
                           else s1)
                 in if t_distance (mTargetRight s2) \<noteq> noTargetDist cfg
                    then Inr (s2\<lparr>mCTargetRight := mTargetRight s2, countRightMisses := 0\<rparr>)
                    else (case incr (countRightMisses s2) of
                            Inl fault \<Rightarrow> Inl fault
                          | Inr misses \<Rightarrow> Inr (s2\<lparr>countRightMisses := misses\<rparr>)))
      else
        case incr (countLeftMisses s) of
          Inl fault \<Rightarrow> Inl fault
        | Inr leftMisses \<Rightarrow>
            (case incr (countRightMisses s) of
               Inl fault \<Rightarrow> Inl fault
             | Inr rightMisses \<Rightarrow>
                 Inr (s\<lparr>countLeftMisses := leftMisses,
                        countRightMisses := rightMisses,
                        countLeftHits := 0,
                        countRightHits := 0\<rparr>)))"

text \<open>
  Lines 336-343 and 345-352 of updateRover: the two checks that reset a cache. The
  \<open>int\<close> counter is converted to \<open>double\<close> for the comparison.
\<close>

definition checkResetLeft :: "RoverConfig \<Rightarrow> RoverStatus \<Rightarrow> RoverStatus" where
  "checkResetLeft cfg s =
     (if real_of_int (countLeftMisses s) > cacheMissMax cfg
      then s\<lparr>countLeftMisses := 0, countLeftHits := 0, mCTargetLeft := emptyTarget\<rparr>
      else s)"

definition checkResetRight :: "RoverConfig \<Rightarrow> RoverStatus \<Rightarrow> RoverStatus" where
  "checkResetRight cfg s =
     (if real_of_int (countRightMisses s) > cacheMissMax cfg
      then s\<lparr>countRightMisses := 0, countRightHits := 0, mCTargetRight := emptyTarget\<rparr>
      else s)"

text \<open>
  Rover::updateRover (lines 271-372): a fault, or the return value and the rover
  afterwards.
\<close>

definition updateRover :: "'p Externals \<Rightarrow> RoverConfig \<Rightarrow> RoverStatus \<Rightarrow> 'p Rover \<Rightarrow> Fault + (bool \<times> 'p Rover)" where
  "updateRover ext cfg newRoverStatus rv =
     (let st = mRoverStatus rv
      in if is_auton (mAutonState st)
         then
           if \<not> is_auton (mAutonState newRoverStatus)
           then Inr (True, rv\<lparr>mRoverStatus := st\<lparr>mAutonState := mAutonState newRoverStatus\<rparr>\<rparr>)
           else if dataChanged st newRoverStatus
           then
             case cacheTargets cfg (copyLive st newRoverStatus) of
               Inl fault \<Rightarrow> Inl fault
             | Inr s \<Rightarrow>
                 Inr (True, rv\<lparr>mRoverStatus := checkResetRight cfg (checkResetLeft cfg s),
                               console := console rv @ [UpdatingOdom]\<rparr>)
           else Inr (True, rv)
         else
           if is_auton (mAutonState newRoverStatus)
           then
             case assign st newRoverStatus of
               Inl fault \<Rightarrow> Inl fault
             | Inr s \<Rightarrow>
                 Inr (True, rv\<lparr>mRoverStatus := s,
                               mLongMeterInMinutes :=
                                 60 / (EARTH_CIRCUM ext *
                                       cos (degreeToRadian ext (latitude_deg (mOdometry s))
                                                               (latitude_min (mOdometry s))) / 360)\<rparr>)
           else Inr (False, rv))"

section \<open>Runs of updateRover\<close>

text \<open>
  What a call of updateRover means for the left target: a pass of the caching block
  that sees a left target with the id of the head of the path (\<open>Match\<close>) or with another
  id (\<open>Mismatch\<close>), a pass that sees no left target (\<open>NoDetection\<close>), or a call that does
  not reach the caching of the left target (\<open>NoPass\<close>).
\<close>

datatype LeftEvent = Match | Mismatch | NoDetection | NoPass

definition left_event :: "RoverConfig \<Rightarrow> RoverStatus \<Rightarrow> 'p Rover \<Rightarrow> LeftEvent" where
  "left_event cfg newRoverStatus rv =
     (let st = mRoverStatus rv
      in if is_auton (mAutonState st) \<and> is_auton (mAutonState newRoverStatus) \<and>
            dataChanged st newRoverStatus
         then
           if t_distance (mTargetLeft newRoverStatus) \<noteq> noTargetDist cfg
           then
             case mPath st of
               [] \<Rightarrow> NoPass
             | front # rest \<Rightarrow>
                 if t_id (mTargetLeft newRoverStatus) = wp_id front then Match else Mismatch
           else NoDetection
         else NoPass)"

text \<open>
  The number of consecutive matching detections so far: a match adds one, a mismatch
  or a pass without detection starts again from 0.
\<close>

fun matches_after :: "LeftEvent \<Rightarrow> nat \<Rightarrow> nat" where
  "matches_after Match n = Suc n"
| "matches_after Mismatch n = 0"
| "matches_after NoDetection n = 0"
| "matches_after NoPass n = n"

text \<open>
  A run: updateRover called on one incoming status after the other, nothing else
  writing to the rover in between. Beside the rover it carries the number of
  consecutive matching detections.
\<close>

fun run :: "'p Externals \<Rightarrow> RoverConfig \<Rightarrow> RoverStatus list \<Rightarrow> 'p Rover \<Rightarrow> nat \<Rightarrow> Fault + ('p Rover \<times> nat)" where
  "run ext cfg [] rv n = Inr (rv, n)"
| "run ext cfg (newRoverStatus # rest) rv n =
     (case updateRover ext cfg newRoverStatus rv of
        Inl fault \<Rightarrow> Inl fault
      | Inr (updated, rv') \<Rightarrow>
          run ext cfg rest rv' (matches_after (left_event cfg newRoverStatus rv) n))"

section \<open>Sample inputs\<close>

text \<open>
  An instance of the external functions, to evaluate the model on concrete inputs:
  \<open>mod\<close> into the range from 0 to the modulus, \<open>throughZero\<close> moving the destination
  bearing by 360 when it is more than 180 away from the heading, a proportional
  controller of gain \<open>kP\<close> without state, and the usual conversion of degrees and minutes
  to radians. The theorems below hold for every instance.
\<close>

definition sample_ext :: "real \<Rightarrow> unit Externals" where
  "sample_ext kP =
     \<lparr>mod_util = (\<lambda>x m. x - of_int m * of_int \<lfloor>x / of_int m\<rfloor>),
      throughZero = (\<lambda>d c. if \<bar>c - d\<bar> > 180 then (if c < 180 then d - 360 else d + 360) else d),
      pid_update = (\<lambda>p c t. (kP * (t - c), p)),
      EARTH_CIRCUM = 40075000,
      degreeToRadian = (\<lambda>d m. (of_int d + m / 60) * pi / 180)\<rparr>"

definition sample_cfg :: RoverConfig where
  "sample_cfg =
     \<lparr>waypointDistance = 1, targetDistance = 1 / 2, drivingBearing = 10, turningBearing = 3,
      minTurningEffort = 1 / 2, noTargetDist = - 1, cacheMissMax = 5,
      autonDriveControlChannel = ''/autonomous''\<rparr>"

definition sample_odom :: "real \<Rightarrow> Odometry" where
  "sample_odom b =
     \<lparr>latitude_deg = 42, latitude_min = 17, longitude_deg = - 83, longitude_min = 42,
      bearing_deg = b\<rparr>"

definition sample_wp :: "int \<Rightarrow> bool \<Rightarrow> bool \<Rightarrow> Waypoint" where
  "sample_wp n s g = \<lparr>search = s, gate = g, wp_id = n, wp_odom = sample_odom 0\<rparr>"

text \<open>A status as the constructor leaves it (lines 10-21), with zero counters and heading \<open>b\<close>.\<close>

definition sample_status :: "real \<Rightarrow> RoverStatus" where
  "sample_status b =
     \<lparr>mCurrentState = Off, mAutonState = \<lparr>is_auton = False\<rparr>,
      mCourse = \<lparr>num_waypoints = 0, waypoints = []\<rparr>, mPath = [],
      mObstacle = \<lparr>o_first = 0, o_bearing = 0, o_distance = - 1\<rparr>,
      mOdometry = sample_odom b,
      mTargetLeft = emptyTarget, mTargetRight = emptyTarget,
      mCTargetLeft = emptyTarget, mCTargetRight = emptyTarget,
      mPathTargets = 0,
      countLeftMisses = 0, countRightMisses = 0, countLeftHits = 0, countRightHits = 0\<rparr>"

text \<open>
  Five waypoints, the second and the fourth flagged \<open>search\<close>; an incoming status that
  carries them with the autonomy flag on, and hit counters 0.
\<close>

definition sample_course :: Course where
  "sample_course =
     \<lparr>num_waypoints = 5,
      waypoints = [sample_wp 7 False False, sample_wp 2 True False, sample_wp 3 False False,
                   sample_wp 4 True False, sample_wp 5 False False]\<rparr>"

definition sample_on :: "real \<Rightarrow> RoverStatus" where
  "sample_on b = (sample_status b)\<lparr>mAutonState := \<lparr>is_auton = True\<rparr>, mCourse := sample_course\<rparr>"

text \<open>
  A status in autonomous operation on that course: the path holds the course (its head
  has id 7), an earlier target is cached on the left, and the left counters are given.
\<close>

definition sample_target :: "real \<Rightarrow> int \<Rightarrow> Target" where
  "sample_target d n = \<lparr>t_distance = d, t_bearing = 1, t_id = n\<rparr>"

definition sample_tracking :: "int \<Rightarrow> int \<Rightarrow> RoverStatus" where
  "sample_tracking hits misses =
     (sample_on 0)\<lparr>mPath := waypoints sample_course, mPathTargets := 2,
                  mCTargetLeft := sample_target 9 7,
                  countLeftHits := hits, countLeftMisses := misses\<rparr>"

definition sample_rover :: "RoverStatus \<Rightarrow> unit Rover" where
  "sample_rover st =
     \<lparr>mRoverStatus = st, mBearingPid = (), mLongMeterInMinutes = - 1,
      published = [], console = []\<rparr>"

section \<open>Evaluation of the sample inputs\<close>

lemmas sample_defs =
  sample_ext_def sample_cfg_def sample_odom_def sample_wp_def sample_status_def
  sample_rover_def emptyTarget_def sample_course_def sample_on_def sample_target_def
  sample_tracking_def

lemmas drive_defs = drive_def Let_def publishAutonDriveCmd_def

lemmas turn_defs = turn_def turn_effort_def isTurningAroundObstacle_def Let_def publishAutonDriveCmd_def

section \<open>Rover::drive\<close>

text \<open>
  C1. drive returns Arrived if and only if the distance is strictly below the threshold
  of the driving mode (targetDistance when target is true, waypointDistance otherwise),
  whatever the bearing; and then the rover, its published commands included, is as
  before the call.
\<close>

theorem drive_arrived_iff:
  "(fst (drive ext cfg distance bearing target rv) = Arrived
      \<longleftrightarrow> distance < (if target then targetDistance cfg else waypointDistance cfg))
   \<and> (fst (drive ext cfg distance bearing target rv) = Arrived
      \<longrightarrow> snd (drive ext cfg distance bearing target rv) = rv
          \<and> published (snd (drive ext cfg distance bearing target rv)) = published rv)"
  by (auto simp: drive_def Let_def split: prod.splits if_splits)

text \<open>
  At 0.3 from a target (threshold 0.5) the rover has arrived, although the bearing 90 is
  far from its heading 0; at 0.7 from the target it has not, although 0.7 is below the
  waypoint threshold 1.
\<close>

theorem drive_arrived_iff_witness:
  "fst (drive (sample_ext (1 / 50)) sample_cfg (3 / 10) 90 True (sample_rover (sample_status 0)))
     = Arrived
   \<and> snd (drive (sample_ext (1 / 50)) sample_cfg (3 / 10) 90 True (sample_rover (sample_status 0)))
     = sample_rover (sample_status 0)
   \<and> fst (drive (sample_ext (1 / 50)) sample_cfg (7 / 10) 90 True (sample_rover (sample_status 0)))
     \<noteq> Arrived"
  using drive_arrived_iff [of "sample_ext (1 / 50)" sample_cfg "3 / 10" 90 True
      "sample_rover (sample_status 0)"]
    drive_arrived_iff [of "sample_ext (1 / 50)" sample_cfg "7 / 10" 90 True
      "sample_rover (sample_status 0)"]
  by (simp add: sample_cfg_def)

text \<open>
  C5. When drive returns OnCourse and \<open>e\<close> is the effort that the controller returned
  for the heading and the adjusted destination bearing, the command appended to the
  published messages has left = min 1 (max 0 (1 + e)) and right = min 1 (max 0 (1 - e)).
  Both lie between 0 and 1 and the larger is 1: the left wheel is 1 for \<open>e \<ge> 0\<close>, the
  right wheel is 1 for \<open>e \<le> 0\<close>, and the other wheel is \<open>1 - \<bar>e\<bar>\<close> when \<open>\<bar>e\<bar> \<le> 1\<close>.
\<close>

theorem drive_course_correction:
  assumes "fst (drive ext cfg distance bearing target rv) = OnCourse"
    and "e = fst (pid_update ext (mBearingPid rv) (bearing_deg (mOdometry (mRoverStatus rv)))
           (throughZero ext (mod_util ext bearing 360)
              (bearing_deg (mOdometry (mRoverStatus rv)))))"
  shows "published (snd (drive ext cfg distance bearing target rv)) =
           published rv @ [(autonDriveControlChannel cfg,
             \<lparr>left_percent_velocity = min 1 (max 0 (1 + e)),
              right_percent_velocity = min 1 (max 0 (1 - e))\<rparr>)]
         \<and> (let m = snd (last (published (snd (drive ext cfg distance bearing target rv))));
                 l = left_percent_velocity m; r = right_percent_velocity m
             in 0 \<le> l \<and> l \<le> 1 \<and> 0 \<le> r \<and> r \<le> 1 \<and> max l r = 1
                \<and> (0 \<le> e \<longrightarrow> l = 1) \<and> (e \<le> 0 \<longrightarrow> r = 1)
                \<and> (\<bar>e\<bar> \<le> 1 \<longrightarrow> (if 0 \<le> e then r else l) = 1 - \<bar>e\<bar>))"
  using assms
  by (auto simp: drive_defs split: prod.splits if_splits)

text \<open>
  Heading 10, bearing 5, gain 1/50: the effort is -1/10, the right wheel is held at 1
  and the left wheel is 9/10.
\<close>

theorem drive_course_correction_witness:
  "fst (drive (sample_ext (1 / 50)) sample_cfg 5 5 False (sample_rover (sample_status 10)))
     = OnCourse
   \<and> fst (pid_update (sample_ext (1 / 50)) () 10
            (throughZero (sample_ext (1 / 50)) (mod_util (sample_ext (1 / 50)) 5 360) 10))
     = - 1 / 10
   \<and> published (snd (drive (sample_ext (1 / 50)) sample_cfg 5 5 False
        (sample_rover (sample_status 10))))
     = [(''/autonomous'', \<lparr>left_percent_velocity = 9 / 10, right_percent_velocity = 1\<rparr>)]"
  using drive_course_correction [of "sample_ext (1 / 50)" sample_cfg 5 5 False
      "sample_rover (sample_status 10)" "- 1 / 10"]
  by (simp add: drive_defs sample_defs)

text \<open>
  C6. drive publishes exactly one command when it returns OnCourse (the published
  messages grow by one at the end) and none when it returns OffCourse or Arrived. With
  OffCourse the rover is as before but for the line written to the diagnostic output;
  with Arrived it is as before.
\<close>

theorem drive_publishes:
  "(fst (drive ext cfg distance bearing target rv) = OnCourse
      \<longrightarrow> length (published (snd (drive ext cfg distance bearing target rv)))
            = Suc (length (published rv))
          \<and> butlast (published (snd (drive ext cfg distance bearing target rv))) = published rv)
   \<and> (fst (drive ext cfg distance bearing target rv) = OffCourse
      \<longrightarrow> snd (drive ext cfg distance bearing target rv) = rv\<lparr>console := console rv @ [Offcourse]\<rparr>
          \<and> published (snd (drive ext cfg distance bearing target rv)) = published rv)
   \<and> (fst (drive ext cfg distance bearing target rv) = Arrived
      \<longrightarrow> snd (drive ext cfg distance bearing target rv) = rv)"
  by (auto simp: drive_defs split: prod.splits if_splits)

text \<open>One call for each of the three outcomes.\<close>

theorem drive_publishes_witness:
  "fst (drive (sample_ext (1 / 50)) sample_cfg 5 5 False (sample_rover (sample_status 10)))
     = OnCourse
   \<and> length (published (snd (drive (sample_ext (1 / 50)) sample_cfg 5 5 False
        (sample_rover (sample_status 10))))) = 1
   \<and> fst (drive (sample_ext (1 / 50)) sample_cfg 5 90 False (sample_rover (sample_status 0)))
     = OffCourse
   \<and> published (snd (drive (sample_ext (1 / 50)) sample_cfg 5 90 False
        (sample_rover (sample_status 0)))) = []
   \<and> fst (drive (sample_ext (1 / 50)) sample_cfg (1 / 2) 90 False (sample_rover (sample_status 0)))
     = Arrived
   \<and> snd (drive (sample_ext (1 / 50)) sample_cfg (1 / 2) 90 False (sample_rover (sample_status 0)))
     = sample_rover (sample_status 0)"
  using drive_publishes [of "sample_ext (1 / 50)" sample_cfg 5 5 False
      "sample_rover (sample_status 10)"]
    drive_publishes [of "sample_ext (1 / 50)" sample_cfg 5 90 False
      "sample_rover (sample_status 0)"]
    drive_publishes [of "sample_ext (1 / 50)" sample_cfg "1 / 2" 90 False
      "sample_rover (sample_status 0)"]
  by (simp add: drive_defs sample_defs)

section \<open>Rover::turn\<close>

text \<open>
  The minimum of lines 246-250 on its own. For an effort that is not negative the
  result is the larger of the effort and the configured minimum; a negative effort is
  compared with the negated minimum, which its absolute value is never below, and stays
  as it is.
\<close>

lemma turn_effort_nonneg:
  "isTurningAroundObstacle st \<Longrightarrow> 0 \<le> e \<Longrightarrow> turn_effort cfg st e = max e (minTurningEffort cfg)"
  by (auto simp: turn_effort_def Let_def)

lemma turn_effort_neg:
  "e < 0 \<Longrightarrow> 0 \<le> minTurningEffort cfg \<Longrightarrow> turn_effort cfg st e = e"
  by (auto simp: turn_effort_def Let_def)

lemma turn_effort_other_state:
  "\<not> isTurningAroundObstacle st \<Longrightarrow> turn_effort cfg st e = e"
  by (auto simp: turn_effort_def Let_def)

text \<open>
  C4. Turning around an obstacle with heading 10 towards bearing 5, gain 1/50 and
  minTurningEffort 1/2: the controller returns -1/10, and the command is built from
  -1/10, whose magnitude is below the minimum. With bearing 15 the effort 1/10 is
  raised to 1/2.
\<close>

theorem turn_negative_effort_below_minimum:
  "turn (sample_ext (1 / 50)) sample_cfg 5
     (sample_rover ((sample_status 10)\<lparr>mCurrentState := TurnAroundObs\<rparr>))
   = (False, (sample_rover ((sample_status 10)\<lparr>mCurrentState := TurnAroundObs\<rparr>))
        \<lparr>published := [(''/autonomous'',
             \<lparr>left_percent_velocity = - 1 / 10, right_percent_velocity = 1 / 10\<rparr>)],
         console := [TurnInfo 10 5 (- 1 / 10), TurnVel (- 1 / 10) (1 / 10)]\<rparr>)
   \<and> turn_effort sample_cfg TurnAroundObs (- 1 / 10) = - 1 / 10
   \<and> \<bar>turn_effort sample_cfg TurnAroundObs (- 1 / 10)\<bar> < minTurningEffort sample_cfg
   \<and> turn_effort sample_cfg TurnAroundObs (1 / 10) = 1 / 2"
  by (simp add: turn_defs sample_defs)

section \<open>Rover::RoverStatus::operator=\<close>

lemma clearPath_empty: "clearPath path = []"
  by (induction path) auto

lemma rebuildPath_take:
  "0 \<le> i \<Longrightarrow> sint (num_waypoints c) \<le> int (length (waypoints c)) \<Longrightarrow>
   rebuildPath c i p k =
     Inr (p @ drop (nat i) (take (nat (sint (num_waypoints c))) (waypoints c)),
          k + of_nat (length (filter (\<lambda>wp. search wp \<or> gate wp)
                (drop (nat i) (take (nat (sint (num_waypoints c))) (waypoints c))))))"
proof (induction c i p k rule: rebuildPath.induct)
  case (1 course courseIndex path pathTargets)
  show ?case
  proof (cases "courseIndex < sint (num_waypoints course)")
    case False
    then show ?thesis
      using "1.prems" by (subst rebuildPath.simps) simp
  next
    case True
    let ?ws = "take (nat (sint (num_waypoints course))) (waypoints course)"
    have inb: "nat courseIndex < length (waypoints course)"
      using True "1.prems" by linarith
    have inb': "nat courseIndex < length ?ws"
      using True "1.prems" by simp
    have step: "drop (nat courseIndex) ?ws = waypoints course ! nat courseIndex # drop (nat (courseIndex + 1)) ?ws"
      using Cons_nth_drop_Suc [OF inb'] "1.prems" True
      by (simp add: nat_add_distrib)
    have ih: "rebuildPath course (courseIndex + 1) (path @ [waypoints course ! nat courseIndex])
        (if search (waypoints course ! nat courseIndex) \<or> gate (waypoints course ! nat courseIndex)
         then pathTargets + 1 else pathTargets) =
      Inr ((path @ [waypoints course ! nat courseIndex]) @ drop (nat (courseIndex + 1)) ?ws,
           (if search (waypoints course ! nat courseIndex) \<or> gate (waypoints course ! nat courseIndex)
            then pathTargets + 1 else pathTargets) +
           of_nat (length (filter (\<lambda>wp. search wp \<or> gate wp) (drop (nat (courseIndex + 1)) ?ws))))"
      using "1.IH" [OF True _ refl] inb "1.prems" by simp
    show ?thesis
      using True inb "1.prems"
      by (subst rebuildPath.simps) (simp add: ih step)
  qed
qed

lemma rebuildPath_overrun:
  "0 \<le> i \<Longrightarrow> i \<le> int (length (waypoints c)) \<Longrightarrow> int (length (waypoints c)) < sint (num_waypoints c) \<Longrightarrow>
   rebuildPath c i p k = Inl WaypointIndex"
proof (induction c i p k rule: rebuildPath.induct)
  case (1 course courseIndex path pathTargets)
  show ?case
  proof (cases "nat courseIndex < length (waypoints course)")
    case False
    then show ?thesis
      using "1.prems" by (subst rebuildPath.simps) simp
  next
    case True
    have lt: "courseIndex < sint (num_waypoints course)"
      using True "1.prems" by linarith
    have "rebuildPath course (courseIndex + 1) (path @ [waypoints course ! nat courseIndex])
        (if search (waypoints course ! nat courseIndex) \<or> gate (waypoints course ! nat courseIndex)
         then pathTargets + 1 else pathTargets) = Inl WaypointIndex"
      using "1.IH" [OF lt _ refl] True "1.prems" by simp
    then show ?thesis
      using True lt "1.prems"
      by (subst rebuildPath.simps) simp
  qed
qed

lemma assign_ok:
  assumes "sint (num_waypoints (mCourse new)) \<le> int (length (waypoints (mCourse new)))"
  shows "assign this new =
    Inr (this\<lparr>mAutonState := mAutonState new,
              mCourse := mCourse new,
              mPath := take (nat (sint (num_waypoints (mCourse new)))) (waypoints (mCourse new)),
              mPathTargets := of_nat (length (filter (\<lambda>wp. search wp \<or> gate wp)
                 (take (nat (sint (num_waypoints (mCourse new)))) (waypoints (mCourse new))))),
              mObstacle := mObstacle new,
              mOdometry := mOdometry new,
              mTargetLeft := mTargetLeft new,
              mTargetRight := mTargetRight new,
              mCTargetLeft := mCTargetLeft new,
              mCTargetRight := mCTargetRight new,
              countLeftMisses := countLeftMisses new,
              countRightMisses := countRightMisses new\<rparr>)"
  using assms by (simp add: assign_def Let_def clearPath_empty rebuildPath_take)

lemma assign_overrun:
  assumes "int (length (waypoints (mCourse new))) < sint (num_waypoints (mCourse new))"
  shows "assign this new = Inl WaypointIndex"
  using assms by (simp add: assign_def Let_def clearPath_empty rebuildPath_overrun)

lemma count_fits:
  assumes "sint (n :: 32 word) = int (length ws)"
  shows "unat (of_nat (length (filter P ws)) :: 32 word) = length (filter P ws)"
proof -
  have "int (length ws) < 2 ^ 31"
    using sint_lt [of n] assms by simp
  then have "length ws < 2 ^ 32" by simp
  moreover have "length (filter P ws) \<le> length ws" by simp
  ultimately have "length (filter P ws) < 2 ^ 32" by linarith
  then show ?thesis by (simp add: unat_of_nat)
qed

section \<open>Rover::updateRover, branch by branch\<close>

lemma updateRover_off_off:
  "\<not> is_auton (mAutonState (mRoverStatus rv)) \<Longrightarrow> \<not> is_auton (mAutonState new) \<Longrightarrow>
   updateRover ext cfg new rv = Inr (False, rv)"
  by (simp add: updateRover_def)

lemma updateRover_on_off:
  "is_auton (mAutonState (mRoverStatus rv)) \<Longrightarrow> \<not> is_auton (mAutonState new) \<Longrightarrow>
   updateRover ext cfg new rv =
     Inr (True, rv\<lparr>mRoverStatus := (mRoverStatus rv)\<lparr>mAutonState := mAutonState new\<rparr>\<rparr>)"
  by (simp add: updateRover_def)

lemma updateRover_on_on_same:
  "is_auton (mAutonState (mRoverStatus rv)) \<Longrightarrow> is_auton (mAutonState new) \<Longrightarrow>
   \<not> dataChanged (mRoverStatus rv) new \<Longrightarrow>
   updateRover ext cfg new rv = Inr (True, rv)"
  by (simp add: updateRover_def)

lemma updateRover_on_on_changed:
  "is_auton (mAutonState (mRoverStatus rv)) \<Longrightarrow> is_auton (mAutonState new) \<Longrightarrow>
   dataChanged (mRoverStatus rv) new \<Longrightarrow>
   updateRover ext cfg new rv =
     (case cacheTargets cfg (copyLive (mRoverStatus rv) new) of
        Inl fault \<Rightarrow> Inl fault
      | Inr s \<Rightarrow>
          Inr (True, rv\<lparr>mRoverStatus := checkResetRight cfg (checkResetLeft cfg s),
                        console := console rv @ [UpdatingOdom]\<rparr>))"
  by (simp add: updateRover_def)

lemma updateRover_off_on:
  "\<not> is_auton (mAutonState (mRoverStatus rv)) \<Longrightarrow> is_auton (mAutonState new) \<Longrightarrow>
   updateRover ext cfg new rv =
     (case assign (mRoverStatus rv) new of
        Inl fault \<Rightarrow> Inl fault
      | Inr s \<Rightarrow>
          Inr (True, rv\<lparr>mRoverStatus := s,
                        mLongMeterInMinutes :=
                          60 / (EARTH_CIRCUM ext *
                                cos (degreeToRadian ext (latitude_deg (mOdometry s))
                                                        (latitude_min (mOdometry s))) / 360)\<rparr>))"
  by (simp add: updateRover_def)

text \<open>The caching block reads the head of the path only when a left target is detected.\<close>

lemma cacheTargets_empty_path:
  "cacheTargets cfg s = Inl EmptyPathFront \<longleftrightarrow>
     t_distance (mTargetLeft s) \<noteq> noTargetDist cfg \<and> mPath s = []"
  by (auto simp: cacheTargets_def incr_def Let_def split: list.splits sum.splits if_splits)

lemma assign_no_empty_front: "assign this new \<noteq> Inl EmptyPathFront"
proof (cases "sint (num_waypoints (mCourse new)) \<le> int (length (waypoints (mCourse new)))")
  case True
  then show ?thesis by (simp add: assign_ok)
next
  case False
  then show ?thesis by (simp add: assign_overrun)
qed

section \<open>The transition from off to on\<close>

text \<open>
  C7. After a transition from off to on with a well-formed course, updateRover returns
  true, the path is the sequence of the course's waypoints, in order, and pathTargets is
  the number of those waypoints whose search or gate flag is set.
\<close>

theorem updateRover_off_on_path:
  assumes "\<not> is_auton (mAutonState (mRoverStatus rv))"
    and "is_auton (mAutonState new)"
    and "course_wf (mCourse new)"
  shows "\<exists>rv'. updateRover ext cfg new rv = Inr (True, rv')
    \<and> mCourse (mRoverStatus rv') = mCourse new
    \<and> mPath (mRoverStatus rv') = waypoints (mCourse new)
    \<and> unat (mPathTargets (mRoverStatus rv'))
        = length (filter (\<lambda>wp. search wp \<or> gate wp) (waypoints (mCourse new)))"
proof -
  have le: "sint (num_waypoints (mCourse new)) \<le> int (length (waypoints (mCourse new)))"
    using assms(3) by (simp add: course_wf_def)
  have all: "take (nat (sint (num_waypoints (mCourse new)))) (waypoints (mCourse new))
      = waypoints (mCourse new)"
    using assms(3) by (simp add: course_wf_def)
  have fits: "unat (of_nat (length (filter (\<lambda>wp. search wp \<or> gate wp) (waypoints (mCourse new)))) :: 32 word)
      = length (filter (\<lambda>wp. search wp \<or> gate wp) (waypoints (mCourse new)))"
    using assms(3) by (intro count_fits) (simp add: course_wf_def)
  show ?thesis
    using assms(1,2) fits
    by (simp add: updateRover_off_on assign_ok [OF le] all)
qed

text \<open>
  The course of five waypoints, two of them flagged search: pathTargets is 2 and the
  path holds the five waypoints.
\<close>

theorem updateRover_off_on_path_witness:
  "\<not> is_auton (mAutonState (mRoverStatus (sample_rover (sample_status 0))))
   \<and> is_auton (mAutonState (sample_on 0))
   \<and> course_wf (mCourse (sample_on 0))
   \<and> (\<exists>rv'. updateRover (sample_ext (1 / 50)) sample_cfg (sample_on 0)
                (sample_rover (sample_status 0)) = Inr (True, rv')
          \<and> length (mPath (mRoverStatus rv')) = 5
          \<and> unat (mPathTargets (mRoverStatus rv')) = 2)"
proof -
  have off: "\<not> is_auton (mAutonState (mRoverStatus (sample_rover (sample_status 0))))"
    by (simp add: sample_defs)
  have on: "is_auton (mAutonState (sample_on 0))"
    by (simp add: sample_defs)
  have wf: "course_wf (mCourse (sample_on 0))"
    by (simp add: sample_defs course_wf_def)
  obtain rv' where ret: "updateRover (sample_ext (1 / 50)) sample_cfg (sample_on 0)
        (sample_rover (sample_status 0)) = Inr (True, rv')"
    and path: "mPath (mRoverStatus rv') = waypoints (mCourse (sample_on 0))"
    and cnt: "unat (mPathTargets (mRoverStatus rv'))
        = length (filter (\<lambda>wp. search wp \<or> gate wp) (waypoints (mCourse (sample_on 0))))"
    using updateRover_off_on_path [OF off on wf, of "sample_ext (1 / 50)" sample_cfg] by blast
  have "length (mPath (mRoverStatus rv')) = 5"
    using path by (simp add: sample_defs)
  moreover have "unat (mPathTargets (mRoverStatus rv')) = 2"
    using cnt by (simp add: sample_defs)
  ultimately show ?thesis
    using off on wf ret by blast
qed

text \<open>
  What the transition from off to on copies from the incoming status, and what it
  leaves: the navigation state and the two hit counters keep their stored values.
\<close>

lemma updateRover_off_on_fields:
  assumes "\<not> is_auton (mAutonState (mRoverStatus rv))"
    and "is_auton (mAutonState new)"
    and "updateRover ext cfg new rv = Inr (b, rv')"
  shows "mAutonState (mRoverStatus rv') = mAutonState new
    \<and> mCourse (mRoverStatus rv') = mCourse new
    \<and> mObstacle (mRoverStatus rv') = mObstacle new
    \<and> mOdometry (mRoverStatus rv') = mOdometry new
    \<and> mTargetLeft (mRoverStatus rv') = mTargetLeft new
    \<and> mTargetRight (mRoverStatus rv') = mTargetRight new
    \<and> mCTargetLeft (mRoverStatus rv') = mCTargetLeft new
    \<and> mCTargetRight (mRoverStatus rv') = mCTargetRight new
    \<and> countLeftMisses (mRoverStatus rv') = countLeftMisses new
    \<and> countRightMisses (mRoverStatus rv') = countRightMisses new
    \<and> countLeftHits (mRoverStatus rv') = countLeftHits (mRoverStatus rv)
    \<and> countRightHits (mRoverStatus rv') = countRightHits (mRoverStatus rv)
    \<and> mCurrentState (mRoverStatus rv') = mCurrentState (mRoverStatus rv)"
proof (cases "sint (num_waypoints (mCourse new)) \<le> int (length (waypoints (mCourse new)))")
  case True
  show ?thesis
    using assms by (auto simp: updateRover_off_on assign_ok [OF True])
next
  case False
  then have "assign (mRoverStatus rv) new = Inl WaypointIndex"
    by (simp add: assign_overrun)
  then show ?thesis
    using assms by (simp add: updateRover_off_on)
qed

text \<open>
  The other transitions replace neither the course nor the path nor the target count:
  from on to off the autonomy flag alone is copied.
\<close>

lemma updateRover_on_keeps_course:
  assumes "is_auton (mAutonState (mRoverStatus rv))"
    and "updateRover ext cfg new rv = Inr (b, rv')"
  shows "mCourse (mRoverStatus rv') = mCourse (mRoverStatus rv)
    \<and> mPath (mRoverStatus rv') = mPath (mRoverStatus rv)
    \<and> mPathTargets (mRoverStatus rv') = mPathTargets (mRoverStatus rv)"
proof -
  have keep: "cacheTargets cfg s = Inr s' \<Longrightarrow>
      mCourse s' = mCourse s \<and> mPath s' = mPath s \<and> mPathTargets s' = mPathTargets s" for s s'
    by (auto simp: cacheTargets_def incr_def Let_def split: if_splits list.splits sum.splits)
  have reset: "mCourse (checkResetRight cfg (checkResetLeft cfg s)) = mCourse s
      \<and> mPath (checkResetRight cfg (checkResetLeft cfg s)) = mPath s
      \<and> mPathTargets (checkResetRight cfg (checkResetLeft cfg s)) = mPathTargets s" for s
    by (simp add: checkResetRight_def checkResetLeft_def)
  show ?thesis
  proof (cases "is_auton (mAutonState new)")
    case False
    then show ?thesis using assms by (auto simp: updateRover_on_off)
  next
    case on: True
    show ?thesis
    proof (cases "dataChanged (mRoverStatus rv) new")
      case False
      then show ?thesis using assms on by (auto simp: updateRover_on_on_same)
    next
      case True
      then obtain s where s: "cacheTargets cfg (copyLive (mRoverStatus rv) new) = Inr s"
        and rv': "rv' = rv\<lparr>mRoverStatus := checkResetRight cfg (checkResetLeft cfg s),
                        console := console rv @ [UpdatingOdom]\<rparr>"
        using assms on by (auto simp: updateRover_on_on_changed split: sum.splits)
      show ?thesis
        using keep [OF s] reset [of s] by (simp add: rv' copyLive_def)
    qed
  qed
qed

lemma updateRover_off_on_returns:
  assumes "\<not> is_auton (mAutonState (mRoverStatus rv))"
    and "is_auton (mAutonState new)"
    and "sint (num_waypoints (mCourse new)) \<le> int (length (waypoints (mCourse new)))"
  shows "\<exists>rv'. updateRover ext cfg new rv = Inr (True, rv')"
  using assms(1,2) by (simp add: updateRover_off_on assign_ok [OF assms(3)])

text \<open>
  C8. The rover is off with stored hit counters 2 and 4 and navigation state
  OtherNavState 1; the incoming status is on, with hit counters 0, left miss counter 3
  and navigation state Off. After the transition the miss counter is the incoming 3,
  but the hit counters are still 2 and 4, and the navigation state is still the stored
  one.
\<close>

theorem updateRover_off_on_keeps_hits:
  "\<exists>rv'. updateRover (sample_ext (1 / 50)) sample_cfg ((sample_on 0)\<lparr>countLeftMisses := 3\<rparr>)
            (sample_rover ((sample_status 0)\<lparr>mCurrentState := OtherNavState 1,
               countLeftHits := 2, countRightHits := 4\<rparr>)) = Inr (True, rv')
     \<and> countLeftHits ((sample_on 0)\<lparr>countLeftMisses := 3\<rparr>) = 0
     \<and> countRightHits ((sample_on 0)\<lparr>countLeftMisses := 3\<rparr>) = 0
     \<and> countLeftHits (mRoverStatus rv') = 2
     \<and> countRightHits (mRoverStatus rv') = 4
     \<and> countLeftMisses (mRoverStatus rv') = 3
     \<and> mCurrentState (mRoverStatus rv') = OtherNavState 1"
proof -
  let ?new = "(sample_on 0)\<lparr>countLeftMisses := 3\<rparr>"
  let ?rv = "sample_rover ((sample_status 0)\<lparr>mCurrentState := OtherNavState 1,
               countLeftHits := 2, countRightHits := 4\<rparr>)"
  have off: "\<not> is_auton (mAutonState (mRoverStatus ?rv))"
    by (simp add: sample_defs)
  have on: "is_auton (mAutonState ?new)"
    by (simp add: sample_defs)
  have le: "sint (num_waypoints (mCourse ?new)) \<le> int (length (waypoints (mCourse ?new)))"
    by (simp add: sample_defs)
  obtain rv' where ret: "updateRover (sample_ext (1 / 50)) sample_cfg ?new ?rv = Inr (True, rv')"
    using updateRover_off_on_returns [OF off on le] by blast
  have "countLeftHits (mRoverStatus rv') = 2" "countRightHits (mRoverStatus rv') = 4"
    "countLeftMisses (mRoverStatus rv') = 3" "mCurrentState (mRoverStatus rv') = OtherNavState 1"
    using updateRover_off_on_fields [OF off on ret] by (simp_all add: sample_defs)
  moreover have "countLeftHits ?new = 0" "countRightHits ?new = 0"
    by (simp_all add: sample_defs)
  ultimately show ?thesis
    using ret by blast
qed

section \<open>The return value of updateRover\<close>

text \<open>
  The caching block returns when no counter that it increments is at INT_MAX and the
  path, if read, is not empty.
\<close>

lemma cacheTargets_returns:
  assumes "t_distance (mTargetLeft s) \<noteq> noTargetDist cfg \<longrightarrow> mPath s \<noteq> []"
    and "countLeftHits s < INT_MAX" and "countLeftMisses s < INT_MAX"
    and "countRightMisses s < INT_MAX"
  shows "\<exists>s'. cacheTargets cfg s = Inr s'"
  using assms
  by (auto simp: cacheTargets_def incr_def Let_def split: list.splits)

text \<open>
  C9. updateRover returns false exactly when the stored and the incoming autonomy flag
  are both off, and true otherwise: whenever it returns, its value is the disjunction
  of the two flags. With both flags off it returns false and the rover is unchanged;
  with both on and no difference in obstacle, odometry and live targets it returns
  true and the rover is unchanged; from on to off it returns true. It also returns
  (true) from off to on when the course does not claim more waypoints than it holds,
  and from on to on with changed data when the path is not empty and no counter is at
  INT_MAX.
\<close>

theorem updateRover_return_value:
  "(\<forall>b rv'. updateRover ext cfg new rv = Inr (b, rv')
       \<longrightarrow> (b = False \<longleftrightarrow>
              \<not> is_auton (mAutonState (mRoverStatus rv)) \<and> \<not> is_auton (mAutonState new)))
   \<and> (\<not> is_auton (mAutonState (mRoverStatus rv)) \<and> \<not> is_auton (mAutonState new)
       \<longrightarrow> updateRover ext cfg new rv = Inr (False, rv))
   \<and> (is_auton (mAutonState (mRoverStatus rv)) \<and> is_auton (mAutonState new)
        \<and> \<not> dataChanged (mRoverStatus rv) new
       \<longrightarrow> updateRover ext cfg new rv = Inr (True, rv))
   \<and> (is_auton (mAutonState (mRoverStatus rv)) \<and> \<not> is_auton (mAutonState new)
       \<longrightarrow> (\<exists>rv'. updateRover ext cfg new rv = Inr (True, rv')))
   \<and> (\<not> is_auton (mAutonState (mRoverStatus rv)) \<and> is_auton (mAutonState new)
        \<and> sint (num_waypoints (mCourse new)) \<le> int (length (waypoints (mCourse new)))
       \<longrightarrow> (\<exists>rv'. updateRover ext cfg new rv = Inr (True, rv')))
   \<and> (is_auton (mAutonState (mRoverStatus rv)) \<and> is_auton (mAutonState new)
        \<and> dataChanged (mRoverStatus rv) new
        \<and> mPath (mRoverStatus rv) \<noteq> []
        \<and> countLeftHits (mRoverStatus rv) < INT_MAX
        \<and> countLeftMisses (mRoverStatus rv) < INT_MAX
        \<and> countRightMisses (mRoverStatus rv) < INT_MAX
       \<longrightarrow> (\<exists>rv'. updateRover ext cfg new rv = Inr (True, rv')))"
proof (intro conjI allI impI)
  fix b rv'
  assume "updateRover ext cfg new rv = Inr (b, rv')"
  then show "b = False \<longleftrightarrow>
      \<not> is_auton (mAutonState (mRoverStatus rv)) \<and> \<not> is_auton (mAutonState new)"
    by (auto simp: updateRover_def Let_def split: if_splits sum.splits)
next
  assume "\<not> is_auton (mAutonState (mRoverStatus rv)) \<and> \<not> is_auton (mAutonState new)"
  then show "updateRover ext cfg new rv = Inr (False, rv)"
    by (simp add: updateRover_off_off)
next
  assume "is_auton (mAutonState (mRoverStatus rv)) \<and> is_auton (mAutonState new)
        \<and> \<not> dataChanged (mRoverStatus rv) new"
  then show "updateRover ext cfg new rv = Inr (True, rv)"
    by (simp add: updateRover_on_on_same)
next
  assume "is_auton (mAutonState (mRoverStatus rv)) \<and> \<not> is_auton (mAutonState new)"
  then show "\<exists>rv'. updateRover ext cfg new rv = Inr (True, rv')"
    by (simp add: updateRover_on_off)
next
  assume "\<not> is_auton (mAutonState (mRoverStatus rv)) \<and> is_auton (mAutonState new)
        \<and> sint (num_waypoints (mCourse new)) \<le> int (length (waypoints (mCourse new)))"
  then show "\<exists>rv'. updateRover ext cfg new rv = Inr (True, rv')"
    by (simp add: updateRover_off_on_returns)
next
  assume a: "is_auton (mAutonState (mRoverStatus rv)) \<and> is_auton (mAutonState new)
        \<and> dataChanged (mRoverStatus rv) new
        \<and> mPath (mRoverStatus rv) \<noteq> []
        \<and> countLeftHits (mRoverStatus rv) < INT_MAX
        \<and> countLeftMisses (mRoverStatus rv) < INT_MAX
        \<and> countRightMisses (mRoverStatus rv) < INT_MAX"
  then obtain s where "cacheTargets cfg (copyLive (mRoverStatus rv) new) = Inr s"
    using cacheTargets_returns [of "copyLive (mRoverStatus rv) new" cfg]
    by (auto simp: copyLive_def)
  then show "\<exists>rv'. updateRover ext cfg new rv = Inr (True, rv')"
    using a by (simp add: updateRover_on_on_changed)
qed

text \<open>
  One call for each transition: off to off, on to on without a change (the incoming
  counters differ, which the comparison does not look at), on to off, off to on, and
  on to on with a new left target.
\<close>

theorem updateRover_return_value_witness:
  "updateRover (sample_ext (1 / 50)) sample_cfg (sample_status 0) (sample_rover (sample_status 0))
     = Inr (False, sample_rover (sample_status 0))
   \<and> \<not> dataChanged (sample_tracking 0 0) (sample_tracking 5 5)
   \<and> updateRover (sample_ext (1 / 50)) sample_cfg (sample_tracking 5 5)
        (sample_rover (sample_tracking 0 0))
     = Inr (True, sample_rover (sample_tracking 0 0))
   \<and> (\<exists>rv'. updateRover (sample_ext (1 / 50)) sample_cfg (sample_status 0)
          (sample_rover (sample_tracking 0 0)) = Inr (True, rv'))
   \<and> (\<exists>rv'. updateRover (sample_ext (1 / 50)) sample_cfg (sample_on 0)
          (sample_rover (sample_status 0)) = Inr (True, rv'))
   \<and> dataChanged (sample_tracking 0 0) ((sample_tracking 0 0)\<lparr>mTargetLeft := sample_target 4 7\<rparr>)
   \<and> (\<exists>rv'. updateRover (sample_ext (1 / 50)) sample_cfg
          ((sample_tracking 0 0)\<lparr>mTargetLeft := sample_target 4 7\<rparr>)
          (sample_rover (sample_tracking 0 0)) = Inr (True, rv'))"
proof -
  let ?ext = "sample_ext (1 / 50)"
  have off: "\<not> is_auton (mAutonState (mRoverStatus (sample_rover (sample_status 0))))"
    "\<not> is_auton (mAutonState (sample_status 0))"
    by (simp_all add: sample_defs)
  have on: "is_auton (mAutonState (mRoverStatus (sample_rover (sample_tracking 0 0))))"
    "is_auton (mAutonState (sample_tracking 5 5))"
    "is_auton (mAutonState (sample_on 0))"
    "is_auton (mAutonState ((sample_tracking 0 0)\<lparr>mTargetLeft := sample_target 4 7\<rparr>))"
    by (simp_all add: sample_defs)
  have same: "\<not> dataChanged (mRoverStatus (sample_rover (sample_tracking 0 0))) (sample_tracking 5 5)"
    by (simp add: sample_defs dataChanged_def isEqualObstacle_def isEqualOdometry_def
        isEqualTarget_def)
  have changed: "dataChanged (mRoverStatus (sample_rover (sample_tracking 0 0)))
      ((sample_tracking 0 0)\<lparr>mTargetLeft := sample_target 4 7\<rparr>)"
    by (simp add: sample_defs dataChanged_def isEqualObstacle_def isEqualOdometry_def
        isEqualTarget_def)
  have le: "sint (num_waypoints (mCourse (sample_on 0)))
      \<le> int (length (waypoints (mCourse (sample_on 0))))"
    by (simp add: sample_defs)
  have ok: "mPath (mRoverStatus (sample_rover (sample_tracking 0 0))) \<noteq> []"
    "countLeftHits (mRoverStatus (sample_rover (sample_tracking 0 0))) < INT_MAX"
    "countLeftMisses (mRoverStatus (sample_rover (sample_tracking 0 0))) < INT_MAX"
    "countRightMisses (mRoverStatus (sample_rover (sample_tracking 0 0))) < INT_MAX"
    by (simp_all add: sample_defs INT_MAX_def)
  have st: "mRoverStatus (sample_rover (sample_tracking 0 0)) = sample_tracking 0 0"
    by (simp add: sample_rover_def)
  have c1: "updateRover ?ext sample_cfg (sample_status 0) (sample_rover (sample_status 0))
      = Inr (False, sample_rover (sample_status 0))"
    using updateRover_return_value [of ?ext sample_cfg "sample_status 0"
        "sample_rover (sample_status 0)"] off
    by blast
  have c2: "updateRover ?ext sample_cfg (sample_tracking 5 5) (sample_rover (sample_tracking 0 0))
      = Inr (True, sample_rover (sample_tracking 0 0))"
    using updateRover_return_value [of ?ext sample_cfg "sample_tracking 5 5"
        "sample_rover (sample_tracking 0 0)"] on same
    by blast
  have c3: "\<exists>rv'. updateRover ?ext sample_cfg (sample_status 0)
      (sample_rover (sample_tracking 0 0)) = Inr (True, rv')"
    using updateRover_return_value [of ?ext sample_cfg "sample_status 0"
        "sample_rover (sample_tracking 0 0)"] on(1) off(2)
    by blast
  have c4: "\<exists>rv'. updateRover ?ext sample_cfg (sample_on 0)
      (sample_rover (sample_status 0)) = Inr (True, rv')"
    using updateRover_return_value [of ?ext sample_cfg "sample_on 0"
        "sample_rover (sample_status 0)"] off(1) on(3) le
    by blast
  have c5: "\<exists>rv'. updateRover ?ext sample_cfg
      ((sample_tracking 0 0)\<lparr>mTargetLeft := sample_target 4 7\<rparr>)
      (sample_rover (sample_tracking 0 0)) = Inr (True, rv')"
    using updateRover_return_value [of ?ext sample_cfg
        "(sample_tracking 0 0)\<lparr>mTargetLeft := sample_target 4 7\<rparr>"
        "sample_rover (sample_tracking 0 0)"] on(1,4) changed ok
    by blast
  show ?thesis
    using c1 c2 c3 c4 c5 same changed unfolding st by simp
qed

section \<open>The head of the path\<close>

text \<open>
  C10. updateRover reads the head of an empty path, which is undefined, exactly when
  both autonomy flags are on, the incoming data differs from the stored data, the
  incoming left target is detected (its distance is not noTargetDist) and the path is
  empty: nothing guards the read, and a non-empty path is what keeps it defined.
\<close>

theorem updateRover_empty_path_front:
  "updateRover ext cfg new rv = Inl EmptyPathFront \<longleftrightarrow>
     is_auton (mAutonState (mRoverStatus rv)) \<and> is_auton (mAutonState new)
     \<and> dataChanged (mRoverStatus rv) new
     \<and> t_distance (mTargetLeft new) \<noteq> noTargetDist cfg
     \<and> mPath (mRoverStatus rv) = []"
proof (cases "is_auton (mAutonState (mRoverStatus rv))")
  case False
  then show ?thesis
    using assign_no_empty_front [of "mRoverStatus rv" new]
    by (auto simp: updateRover_def Let_def split: sum.splits)
next
  case stored: True
  show ?thesis
  proof (cases "is_auton (mAutonState new) \<and> dataChanged (mRoverStatus rv) new")
    case False
    then show ?thesis
      using stored by (auto simp: updateRover_def Let_def)
  next
    case True
    have "updateRover ext cfg new rv = Inl EmptyPathFront \<longleftrightarrow>
        cacheTargets cfg (copyLive (mRoverStatus rv) new) = Inl EmptyPathFront"
      using stored True by (auto simp: updateRover_on_on_changed split: sum.splits)
    then show ?thesis
      using stored True by (simp add: cacheTargets_empty_path copyLive_def)
  qed
qed

text \<open>The sample rover with its path emptied sees the target with id 7.\<close>

theorem updateRover_empty_path_front_witness:
  "dataChanged ((sample_tracking 0 0)\<lparr>mPath := []\<rparr>)
     ((sample_tracking 0 0)\<lparr>mTargetLeft := sample_target 4 7\<rparr>)
   \<and> updateRover (sample_ext (1 / 50)) sample_cfg
        ((sample_tracking 0 0)\<lparr>mTargetLeft := sample_target 4 7\<rparr>)
        (sample_rover ((sample_tracking 0 0)\<lparr>mPath := []\<rparr>)) = Inl EmptyPathFront
   \<and> updateRover (sample_ext (1 / 50)) sample_cfg
        ((sample_tracking 0 0)\<lparr>mTargetLeft := sample_target 4 7\<rparr>)
        (sample_rover (sample_tracking 0 0)) \<noteq> Inl EmptyPathFront"
  using updateRover_empty_path_front [of "sample_ext (1 / 50)" sample_cfg
      "(sample_tracking 0 0)\<lparr>mTargetLeft := sample_target 4 7\<rparr>"
      "sample_rover ((sample_tracking 0 0)\<lparr>mPath := []\<rparr>)"]
    updateRover_empty_path_front [of "sample_ext (1 / 50)" sample_cfg
      "(sample_tracking 0 0)\<lparr>mTargetLeft := sample_target 4 7\<rparr>"
      "sample_rover (sample_tracking 0 0)"]
  by (simp add: sample_defs dataChanged_def isEqualObstacle_def isEqualOdometry_def
      isEqualTarget_def)

section \<open>The caching of the left target\<close>

lemma cacheTargets_left:
  assumes "t_distance (mTargetLeft s) \<noteq> noTargetDist cfg"
    and "mPath s = front # rest"
    and "t_id (mTargetLeft s) = wp_id front \<longrightarrow> countLeftHits s < INT_MAX"
    and "t_distance (mTargetRight s) = noTargetDist cfg \<longrightarrow> countRightMisses s < INT_MAX"
  shows "\<exists>s'. cacheTargets cfg s = Inr s'
    \<and> countLeftHits s' = (if t_id (mTargetLeft s) = wp_id front then countLeftHits s + 1 else 0)
    \<and> (if 3 \<le> countLeftHits s'
        then mCTargetLeft s' = mTargetLeft s \<and> countLeftMisses s' = 0
        else mCTargetLeft s' = mCTargetLeft s \<and> countLeftMisses s' = countLeftMisses s)"
  using assms by (auto simp: cacheTargets_def incr_def Let_def)

text \<open>
  C2. In a pass from on to on with changed data, a detected left target (distance
  other than noTargetDist) and a path with head \<open>front\<close>, let \<open>s\<close> be the status after the
  caching block (lines 295-334). Its left hit counter is the stored one plus 1 when the
  id of the left target is the id of \<open>front\<close>, and 0 otherwise. The left target is
  promoted into the left cache, and the left miss counter set to 0, exactly when that
  counter is at least 3, which takes a match in this pass and a stored counter of at
  least 2; otherwise cache and miss counter are as stored. In the status that updateRover
  leaves, a mismatch has set the hit counter to 0, and a promotion stands when
  cacheMissMax is not negative.
\<close>

theorem updateRover_left_hits:
  assumes "is_auton (mAutonState (mRoverStatus rv))"
    and "is_auton (mAutonState new)"
    and "dataChanged (mRoverStatus rv) new"
    and "t_distance (mTargetLeft new) \<noteq> noTargetDist cfg"
    and "mPath (mRoverStatus rv) = front # rest"
    and "t_id (mTargetLeft new) = wp_id front \<longrightarrow> countLeftHits (mRoverStatus rv) < INT_MAX"
    and "t_distance (mTargetRight new) = noTargetDist cfg
           \<longrightarrow> countRightMisses (mRoverStatus rv) < INT_MAX"
  shows "\<exists>s rv'. cacheTargets cfg (copyLive (mRoverStatus rv) new) = Inr s
    \<and> updateRover ext cfg new rv = Inr (True, rv')
    \<and> mRoverStatus rv' = checkResetRight cfg (checkResetLeft cfg s)
    \<and> countLeftHits s =
        (if t_id (mTargetLeft new) = wp_id front then countLeftHits (mRoverStatus rv) + 1 else 0)
    \<and> (3 \<le> countLeftHits s \<longleftrightarrow>
          t_id (mTargetLeft new) = wp_id front \<and> 2 \<le> countLeftHits (mRoverStatus rv))
    \<and> (if 3 \<le> countLeftHits s
        then mCTargetLeft s = mTargetLeft new \<and> countLeftMisses s = 0
        else mCTargetLeft s = mCTargetLeft (mRoverStatus rv)
             \<and> countLeftMisses s = countLeftMisses (mRoverStatus rv))
    \<and> (t_id (mTargetLeft new) \<noteq> wp_id front \<longrightarrow> countLeftHits (mRoverStatus rv') = 0)
    \<and> (3 \<le> countLeftHits s \<and> 0 \<le> cacheMissMax cfg
          \<longrightarrow> mCTargetLeft (mRoverStatus rv') = mTargetLeft new
              \<and> countLeftMisses (mRoverStatus rv') = 0
              \<and> countLeftHits (mRoverStatus rv') = countLeftHits s)"
proof -
  let ?s0 = "copyLive (mRoverStatus rv) new"
  have f: "mTargetLeft ?s0 = mTargetLeft new" "mTargetRight ?s0 = mTargetRight new"
    "countLeftHits ?s0 = countLeftHits (mRoverStatus rv)"
    "countLeftMisses ?s0 = countLeftMisses (mRoverStatus rv)"
    "countRightMisses ?s0 = countRightMisses (mRoverStatus rv)"
    "mCTargetLeft ?s0 = mCTargetLeft (mRoverStatus rv)"
    "mPath ?s0 = mPath (mRoverStatus rv)"
    by (simp_all add: copyLive_def)
  have pre1: "t_distance (mTargetLeft ?s0) \<noteq> noTargetDist cfg"
    using assms(4) by (simp add: f)
  have pre2: "mPath ?s0 = front # rest"
    using assms(5) by (simp add: f)
  have pre3: "t_id (mTargetLeft ?s0) = wp_id front \<longrightarrow> countLeftHits ?s0 < INT_MAX"
    using assms(6) by (simp add: f)
  have pre4: "t_distance (mTargetRight ?s0) = noTargetDist cfg \<longrightarrow> countRightMisses ?s0 < INT_MAX"
    using assms(7) by (simp add: f)
  have "\<exists>s. cacheTargets cfg ?s0 = Inr s
      \<and> countLeftHits s =
          (if t_id (mTargetLeft new) = wp_id front then countLeftHits (mRoverStatus rv) + 1 else 0)
      \<and> (if 3 \<le> countLeftHits s
          then mCTargetLeft s = mTargetLeft new \<and> countLeftMisses s = 0
          else mCTargetLeft s = mCTargetLeft (mRoverStatus rv)
               \<and> countLeftMisses s = countLeftMisses (mRoverStatus rv))"
    using cacheTargets_left [OF pre1 pre2 pre3 pre4] unfolding f .
  then obtain s where s: "cacheTargets cfg ?s0 = Inr s"
    and hits: "countLeftHits s =
        (if t_id (mTargetLeft new) = wp_id front then countLeftHits (mRoverStatus rv) + 1 else 0)"
    and promo: "if 3 \<le> countLeftHits s
        then mCTargetLeft s = mTargetLeft new \<and> countLeftMisses s = 0
        else mCTargetLeft s = mCTargetLeft (mRoverStatus rv)
             \<and> countLeftMisses s = countLeftMisses (mRoverStatus rv)"
    by blast
  let ?rv' = "rv\<lparr>mRoverStatus := checkResetRight cfg (checkResetLeft cfg s),
                 console := console rv @ [UpdatingOdom]\<rparr>"
  have ret: "updateRover ext cfg new rv = Inr (True, ?rv')"
    using assms(1-3) s by (simp add: updateRover_on_on_changed)
  have iff: "3 \<le> countLeftHits s \<longleftrightarrow>
      t_id (mTargetLeft new) = wp_id front \<and> 2 \<le> countLeftHits (mRoverStatus rv)"
    using hits by auto
  have mismatch: "t_id (mTargetLeft new) \<noteq> wp_id front \<longrightarrow> countLeftHits (mRoverStatus ?rv') = 0"
    using hits by (simp add: checkResetRight_def checkResetLeft_def)
  have stands: "3 \<le> countLeftHits s \<and> 0 \<le> cacheMissMax cfg
          \<longrightarrow> mCTargetLeft (mRoverStatus ?rv') = mTargetLeft new
              \<and> countLeftMisses (mRoverStatus ?rv') = 0
              \<and> countLeftHits (mRoverStatus ?rv') = countLeftHits s"
    using promo by (auto simp: checkResetRight_def checkResetLeft_def)
  have "mRoverStatus ?rv' = checkResetRight cfg (checkResetLeft cfg s)"
    by simp
  with s ret hits iff promo mismatch stands show ?thesis
    by blast
qed

text \<open>
  The stored hit counter is 2 and the head of the path has id 7. A left target with id 7
  makes the counter 3 and is promoted, the miss counter falls from 4 to 0; a left
  target with id 8 sets the counter to 0.
\<close>

theorem updateRover_left_hits_witness:
  "is_auton (mAutonState (mRoverStatus (sample_rover (sample_tracking 2 4))))
   \<and> dataChanged (mRoverStatus (sample_rover (sample_tracking 2 4)))
        ((sample_tracking 0 0)\<lparr>mTargetLeft := sample_target 4 7\<rparr>)
   \<and> t_distance (mTargetLeft ((sample_tracking 0 0)\<lparr>mTargetLeft := sample_target 4 7\<rparr>))
        \<noteq> noTargetDist sample_cfg
   \<and> wp_id (hd (mPath (mRoverStatus (sample_rover (sample_tracking 2 4))))) = 7
   \<and> (\<exists>rv'. updateRover (sample_ext (1 / 50)) sample_cfg
          ((sample_tracking 0 0)\<lparr>mTargetLeft := sample_target 4 7\<rparr>)
          (sample_rover (sample_tracking 2 4)) = Inr (True, rv')
        \<and> countLeftHits (mRoverStatus rv') = 3
        \<and> mCTargetLeft (mRoverStatus rv') = sample_target 4 7
        \<and> countLeftMisses (mRoverStatus rv') = 0)
   \<and> (\<exists>rv'. updateRover (sample_ext (1 / 50)) sample_cfg
          ((sample_tracking 0 0)\<lparr>mTargetLeft := sample_target 4 8\<rparr>)
          (sample_rover (sample_tracking 2 4)) = Inr (True, rv')
        \<and> countLeftHits (mRoverStatus rv') = 0)"
proof -
  let ?rv = "sample_rover (sample_tracking 2 4)"
  let ?front = "sample_wp 7 False False"
  let ?rest = "[sample_wp 2 True False, sample_wp 3 False False,
                sample_wp 4 True False, sample_wp 5 False False]"
  let ?match = "(sample_tracking 0 0)\<lparr>mTargetLeft := sample_target 4 7\<rparr>"
  let ?other = "(sample_tracking 0 0)\<lparr>mTargetLeft := sample_target 4 8\<rparr>"
  have on: "is_auton (mAutonState (mRoverStatus ?rv))"
    "is_auton (mAutonState ?match)" "is_auton (mAutonState ?other)"
    by (simp_all add: sample_defs)
  have changed: "dataChanged (mRoverStatus ?rv) ?match" "dataChanged (mRoverStatus ?rv) ?other"
    by (simp_all add: sample_defs dataChanged_def isEqualObstacle_def isEqualOdometry_def
        isEqualTarget_def)
  have detected: "t_distance (mTargetLeft ?match) \<noteq> noTargetDist sample_cfg"
    "t_distance (mTargetLeft ?other) \<noteq> noTargetDist sample_cfg"
    by (simp_all add: sample_defs)
  have path: "mPath (mRoverStatus ?rv) = ?front # ?rest"
    by (simp add: sample_defs)
  have hits: "t_id (mTargetLeft ?match) = wp_id ?front \<longrightarrow> countLeftHits (mRoverStatus ?rv) < INT_MAX"
    "t_id (mTargetLeft ?other) = wp_id ?front \<longrightarrow> countLeftHits (mRoverStatus ?rv) < INT_MAX"
    by (simp_all add: sample_defs INT_MAX_def)
  have misses: "t_distance (mTargetRight ?match) = noTargetDist sample_cfg
        \<longrightarrow> countRightMisses (mRoverStatus ?rv) < INT_MAX"
    "t_distance (mTargetRight ?other) = noTargetDist sample_cfg
        \<longrightarrow> countRightMisses (mRoverStatus ?rv) < INT_MAX"
    by (simp_all add: sample_defs INT_MAX_def)
  have vals: "t_id (mTargetLeft ?match) = wp_id ?front" "t_id (mTargetLeft ?other) \<noteq> wp_id ?front"
    "countLeftHits (mRoverStatus ?rv) = 2" "0 \<le> cacheMissMax sample_cfg"
    "mTargetLeft ?match = sample_target 4 7"
    by (simp_all add: sample_defs)
  have a: "\<exists>rv'. updateRover (sample_ext (1 / 50)) sample_cfg ?match ?rv = Inr (True, rv')
        \<and> countLeftHits (mRoverStatus rv') = 3
        \<and> mCTargetLeft (mRoverStatus rv') = sample_target 4 7
        \<and> countLeftMisses (mRoverStatus rv') = 0"
    using updateRover_left_hits [OF on(1,2) changed(1) detected(1) path hits(1) misses(1),
        of "sample_ext (1 / 50)"] vals
    by auto
  have b: "\<exists>rv'. updateRover (sample_ext (1 / 50)) sample_cfg ?other ?rv = Inr (True, rv')
        \<and> countLeftHits (mRoverStatus rv') = 0"
    using updateRover_left_hits [OF on(1,3) changed(2) detected(2) path hits(2) misses(2),
        of "sample_ext (1 / 50)"] vals(2)
    by auto
  have "wp_id (hd (mPath (mRoverStatus ?rv))) = 7"
    by (simp add: path) (simp add: sample_defs)
  with on(1) changed(1) detected(1) a b show ?thesis
    by simp
qed

section \<open>The reset of a cache\<close>

text \<open>
  C3. In a pass from on to on with changed data, let \<open>s\<close> be the status after the
  caching block. updateRover returns true, and in the status that it leaves, for the
  left side: when the miss counter of \<open>s\<close> exceeds cacheMissMax, the cached target is
  the empty target (-1, 0, 0) and hit and miss counter are 0; when it does not, the
  cached target and the two counters are those of \<open>s\<close>. The same holds for the right
  side, with the right miss counter of \<open>s\<close>, whatever happens on the left.
\<close>

theorem updateRover_cache_reset:
  assumes "is_auton (mAutonState (mRoverStatus rv))"
    and "is_auton (mAutonState new)"
    and "dataChanged (mRoverStatus rv) new"
    and "cacheTargets cfg (copyLive (mRoverStatus rv) new) = Inr s"
  shows "\<exists>rv'. updateRover ext cfg new rv = Inr (True, rv')
    \<and> (if cacheMissMax cfg < real_of_int (countLeftMisses s)
        then mCTargetLeft (mRoverStatus rv') = \<lparr>t_distance = - 1, t_bearing = 0, t_id = 0\<rparr>
             \<and> countLeftHits (mRoverStatus rv') = 0
             \<and> countLeftMisses (mRoverStatus rv') = 0
        else mCTargetLeft (mRoverStatus rv') = mCTargetLeft s
             \<and> countLeftHits (mRoverStatus rv') = countLeftHits s
             \<and> countLeftMisses (mRoverStatus rv') = countLeftMisses s)
    \<and> (if cacheMissMax cfg < real_of_int (countRightMisses s)
        then mCTargetRight (mRoverStatus rv') = \<lparr>t_distance = - 1, t_bearing = 0, t_id = 0\<rparr>
             \<and> countRightHits (mRoverStatus rv') = 0
             \<and> countRightMisses (mRoverStatus rv') = 0
        else mCTargetRight (mRoverStatus rv') = mCTargetRight s
             \<and> countRightHits (mRoverStatus rv') = countRightHits s
             \<and> countRightMisses (mRoverStatus rv') = countRightMisses s)"
  using assms
  by (simp add: updateRover_on_on_changed checkResetRight_def checkResetLeft_def emptyTarget_def)

text \<open>
  cacheMissMax is 5 and no left target is seen while the odometry changes. With a
  stored left miss counter of 5 the counter reaches 6 and the left cache is emptied;
  the right miss counter reaches 1 and stays. With a stored counter of 4 it reaches 5
  and the cached target stays.
\<close>

theorem updateRover_cache_reset_witness:
  "is_auton (mAutonState (mRoverStatus (sample_rover (sample_tracking 0 5))))
   \<and> dataChanged (mRoverStatus (sample_rover (sample_tracking 0 5)))
        ((sample_tracking 0 0)\<lparr>mOdometry := sample_odom 3\<rparr>)
   \<and> cacheTargets sample_cfg (copyLive (mRoverStatus (sample_rover (sample_tracking 0 5)))
        ((sample_tracking 0 0)\<lparr>mOdometry := sample_odom 3\<rparr>))
      = Inr ((sample_tracking 0 6)\<lparr>mOdometry := sample_odom 3, countRightMisses := 1\<rparr>)
   \<and> (\<exists>rv'. updateRover (sample_ext (1 / 50)) sample_cfg
          ((sample_tracking 0 0)\<lparr>mOdometry := sample_odom 3\<rparr>)
          (sample_rover (sample_tracking 0 5)) = Inr (True, rv')
        \<and> mCTargetLeft (mRoverStatus rv') = emptyTarget
        \<and> countLeftMisses (mRoverStatus rv') = 0
        \<and> countRightMisses (mRoverStatus rv') = 1)
   \<and> (\<exists>rv'. updateRover (sample_ext (1 / 50)) sample_cfg
          ((sample_tracking 0 0)\<lparr>mOdometry := sample_odom 3\<rparr>)
          (sample_rover (sample_tracking 0 4)) = Inr (True, rv')
        \<and> mCTargetLeft (mRoverStatus rv') = sample_target 9 7
        \<and> countLeftMisses (mRoverStatus rv') = 5)"
proof -
  let ?new = "(sample_tracking 0 0)\<lparr>mOdometry := sample_odom 3\<rparr>"
  have on: "is_auton (mAutonState (mRoverStatus (sample_rover (sample_tracking 0 m))))"
    "is_auton (mAutonState ?new)" for m
    by (simp_all add: sample_defs)
  have changed: "dataChanged (mRoverStatus (sample_rover (sample_tracking 0 m))) ?new" for m
    by (simp add: sample_defs dataChanged_def isEqualObstacle_def isEqualOdometry_def
        isEqualTarget_def)
  have block: "m < 10 \<Longrightarrow>
      cacheTargets sample_cfg (copyLive (mRoverStatus (sample_rover (sample_tracking 0 m))) ?new)
      = Inr ((sample_tracking 0 (m + 1))\<lparr>mOdometry := sample_odom 3, countRightMisses := 1\<rparr>)" for m
    by (simp add: sample_defs cacheTargets_def copyLive_def incr_def INT_MAX_def)
  have s5: "cacheTargets sample_cfg (copyLive (mRoverStatus (sample_rover (sample_tracking 0 5))) ?new)
      = Inr ((sample_tracking 0 6)\<lparr>mOdometry := sample_odom 3, countRightMisses := 1\<rparr>)"
    using block [of 5] by simp
  have s4: "cacheTargets sample_cfg (copyLive (mRoverStatus (sample_rover (sample_tracking 0 4))) ?new)
      = Inr ((sample_tracking 0 5)\<lparr>mOdometry := sample_odom 3, countRightMisses := 1\<rparr>)"
    using block [of 4] by simp
  have a: "\<exists>rv'. updateRover (sample_ext (1 / 50)) sample_cfg ?new
          (sample_rover (sample_tracking 0 5)) = Inr (True, rv')
        \<and> mCTargetLeft (mRoverStatus rv') = emptyTarget
        \<and> countLeftMisses (mRoverStatus rv') = 0
        \<and> countRightMisses (mRoverStatus rv') = 1"
    using updateRover_cache_reset [OF on changed s5, of "sample_ext (1 / 50)"]
    by (auto simp: sample_defs)
  have b: "\<exists>rv'. updateRover (sample_ext (1 / 50)) sample_cfg ?new
          (sample_rover (sample_tracking 0 4)) = Inr (True, rv')
        \<and> mCTargetLeft (mRoverStatus rv') = sample_target 9 7
        \<and> countLeftMisses (mRoverStatus rv') = 5"
    using updateRover_cache_reset [OF on changed s4, of "sample_ext (1 / 50)"]
    by (auto simp: sample_defs)
  show ?thesis
    using on(1) [of 5] changed [of 5] s5 a b by simp
qed

section \<open>Three consecutive matches before a promotion\<close>

text \<open>
  One call keeps the left hit counter at or below the number of consecutive matching
  detections.
\<close>

lemma updateRover_hits_le_matches:
  assumes "updateRover ext cfg new rv = Inr (b, rv')"
    and "countLeftHits (mRoverStatus rv) \<le> int n"
  shows "countLeftHits (mRoverStatus rv') \<le> int (matches_after (left_event cfg new rv) n)"
proof (cases "is_auton (mAutonState (mRoverStatus rv)) \<and> is_auton (mAutonState new)
    \<and> dataChanged (mRoverStatus rv) new")
  case False
  then have ev: "left_event cfg new rv = NoPass"
    by (auto simp: left_event_def Let_def)
  have "countLeftHits (mRoverStatus rv') = countLeftHits (mRoverStatus rv)"
  proof (cases "is_auton (mAutonState (mRoverStatus rv))")
    case True
    then show ?thesis
      using False assms(1) by (auto simp: updateRover_def Let_def split: if_splits)
  next
    case off: False
    show ?thesis
    proof (cases "is_auton (mAutonState new)")
      case True
      then show ?thesis
        using updateRover_off_on_fields [OF off True assms(1)] by simp
    next
      case False
      then show ?thesis
        using off assms(1) by (simp add: updateRover_off_off)
    qed
  qed
  then show ?thesis
    using assms(2) ev by simp
next
  case True
  then obtain s where s: "cacheTargets cfg (copyLive (mRoverStatus rv) new) = Inr s"
    and rv': "mRoverStatus rv' = checkResetRight cfg (checkResetLeft cfg s)"
    using assms(1) by (auto simp: updateRover_on_on_changed split: sum.splits)
  have reset: "countLeftHits (mRoverStatus rv') = countLeftHits s
      \<or> countLeftHits (mRoverStatus rv') = 0"
    by (simp add: rv' checkResetRight_def checkResetLeft_def)
  have "countLeftHits s \<le> int (matches_after (left_event cfg new rv) n)"
    using s True assms(2)
    by (auto simp: cacheTargets_def left_event_def copyLive_def incr_def Let_def
        split: if_splits list.splits sum.splits)
  then show ?thesis
    using reset by auto
qed

lemma run_hits_le_matches:
  "run ext cfg news rv n = Inr (rv', n') \<Longrightarrow> countLeftHits (mRoverStatus rv) \<le> int n \<Longrightarrow>
   countLeftHits (mRoverStatus rv') \<le> int n'"
proof (induction news arbitrary: rv n)
  case Nil
  then show ?case by simp
next
  case (Cons new news)
  from Cons.prems(1) obtain b rv1 where step: "updateRover ext cfg new rv = Inr (b, rv1)"
    and rest: "run ext cfg news rv1 (matches_after (left_event cfg new rv) n) = Inr (rv', n')"
    by (auto split: sum.splits)
  show ?case
    using Cons.IH [OF rest] updateRover_hits_le_matches [OF step Cons.prems(2)] by simp
qed

text \<open>
  A run starts with a left hit counter that is not positive. When a later pass promotes
  the left target (the caching block leaves a hit counter of at least 3), that pass
  saw a match and the two detections before it were matches too: at least three
  consecutive matching detections.
\<close>

lemma promotion_after_three_matches:
  assumes "countLeftHits (mRoverStatus rv0) \<le> 0"
    and "run ext cfg news rv0 0 = Inr (rv, n)"
    and "is_auton (mAutonState (mRoverStatus rv))"
    and "is_auton (mAutonState new)"
    and "dataChanged (mRoverStatus rv) new"
    and "cacheTargets cfg (copyLive (mRoverStatus rv) new) = Inr s"
    and "3 \<le> countLeftHits s"
  shows "left_event cfg new rv = Match \<and> 2 \<le> n
    \<and> 3 \<le> matches_after (left_event cfg new rv) n"
proof -
  have le: "countLeftHits (mRoverStatus rv) \<le> int n"
    using run_hits_le_matches [OF assms(2)] assms(1) by simp
  have "left_event cfg new rv = Match \<and> countLeftHits s = countLeftHits (mRoverStatus rv) + 1"
    using assms(3-7)
    by (auto simp: cacheTargets_def left_event_def copyLive_def incr_def Let_def
        split: if_splits list.splits sum.splits)
  then show ?thesis
    using le assms(7) by auto
qed

text \<open>
  Three updates in a row that see the target with id 7, the id of the head of the path,
  starting from a hit counter of 0 and a miss counter of 4: the third one promotes the
  target, and the miss counter is 0.
\<close>

lemmas updateRover_defs =
  updateRover_def cacheTargets_def copyLive_def checkResetLeft_def checkResetRight_def
  dataChanged_def isEqualObstacle_def isEqualOdometry_def isEqualTarget_def incr_def
  INT_MAX_def left_event_def Let_def

lemma run_three_matches:
  "\<exists>rv'. run (sample_ext (1 / 50)) sample_cfg
       [(sample_tracking 0 0)\<lparr>mTargetLeft := sample_target 6 7\<rparr>,
        (sample_tracking 0 0)\<lparr>mTargetLeft := sample_target 5 7\<rparr>,
        (sample_tracking 0 0)\<lparr>mTargetLeft := sample_target 4 7\<rparr>]
       (sample_rover (sample_tracking 0 4)) 0 = Inr (rv', 3)
     \<and> countLeftHits (mRoverStatus rv') = 3
     \<and> mCTargetLeft (mRoverStatus rv') = sample_target 4 7
     \<and> countLeftMisses (mRoverStatus rv') = 0"
  by (simp add: updateRover_defs sample_defs)

text \<open>
  cacheMissMax is 5. Six updates in a row without a left target (the heading changes
  each time) empty the left cache; after five of them the cached target is still
  there.
\<close>

lemma run_six_misses:
  "\<exists>rv'. run (sample_ext (1 / 50)) sample_cfg
       [(sample_tracking 0 0)\<lparr>mOdometry := sample_odom 1\<rparr>,
        (sample_tracking 0 0)\<lparr>mOdometry := sample_odom 2\<rparr>,
        (sample_tracking 0 0)\<lparr>mOdometry := sample_odom 3\<rparr>,
        (sample_tracking 0 0)\<lparr>mOdometry := sample_odom 4\<rparr>,
        (sample_tracking 0 0)\<lparr>mOdometry := sample_odom 5\<rparr>]
       (sample_rover (sample_tracking 0 0)) 0 = Inr (rv', 0)
     \<and> mCTargetLeft (mRoverStatus rv') = sample_target 9 7
     \<and> countLeftMisses (mRoverStatus rv') = 5
     \<and> (\<exists>rv''. updateRover (sample_ext (1 / 50)) sample_cfg
            ((sample_tracking 0 0)\<lparr>mOdometry := sample_odom 6\<rparr>) rv' = Inr (True, rv'')
          \<and> mCTargetLeft (mRoverStatus rv'') = emptyTarget
          \<and> countLeftMisses (mRoverStatus rv'') = 0)"
  by (simp add: updateRover_defs sample_defs)

end
